theory Spec2Isabelle
  imports Main "HOL-Library.Sublist" "HOL-Library.AList"
begin

section \<open>Python values and host objects read by the pipeline\<close>

text \<open>
  The stages of \<^verbatim>\<open>conftest.py\<close> read pytest items. An item is an object that the
  grouping stage mutates (\<^verbatim>\<open>add_marker\<close>), and the same object is held by several
  lists, so items live in a store and the lists hold addresses.

  A string is a Python \<^verbatim>\<open>str\<close> over the code points below 256, one \<^verbatim>\<open>char\<close> for each
  code point. On these \<^verbatim>\<open>str.lower\<close> works character by character: it adds 32 to
  \<^verbatim>\<open>A..Z\<close> and to the capital letters \<^verbatim>\<open>U+00C0..U+00DE\<close> (all but the sign \<^verbatim>\<open>U+00D7\<close>), and
  leaves every other character as it is. Text with a code point from 256 on, where
  \<^verbatim>\<open>str.lower\<close> may depend on the neighbours of a character, is not represented.
\<close>

datatype error = AttributeError | IndexError | KeyError | TypeError | Failed

text \<open>
  A resolved parameter or fixture value: a string, an integer, a boolean or \<^verbatim>\<open>None\<close>.
  Values of other types are not represented.
\<close>

datatype param_value = VStr string | VInt int | VBool bool | VNone

text \<open>
  An argument of a marker: a string, a list or tuple, or any other object
  (what \<^verbatim>\<open>isinstance(arg, str)\<close> and \<^verbatim>\<open>isinstance(value, (list, tuple))\<close> tell apart).
\<close>

datatype mark_value = MStr string | MSeq "mark_value list" | MOther

record Mark =
  mark_name :: string
  mark_args :: "mark_value list"
  mark_kwargs :: "(string \<times> mark_value) list"

text \<open>
  \<^verbatim>\<open>callspec.params\<close>: a dict (insertion-ordered, as an association list), another
  iterable, or an object that cannot be iterated.
\<close>

datatype params = DictParams "(string \<times> param_value) list"
  | IterParams "param_value list"
  | OtherParams

text \<open>
  \<^verbatim>\<open>callspec\<close> is \<^verbatim>\<open>None\<close> when the item is not parametrized; \<^verbatim>\<open>funcargs\<close> is \<^verbatim>\<open>None\<close>
  when the attribute is missing or is not a dict. \<^verbatim>\<open>parent_markers\<close> are the markers of
  the enclosing nodes, closest first.
\<close>

record Item =
  item_name :: string
  own_markers :: "Mark list"
  parent_markers :: "Mark list"
  callspec :: "params option"
  funcargs :: "(string \<times> param_value) list option"

type_synonym addr = nat
type_synonym store = "addr \<Rightarrow> Item"

subsection \<open>Strings\<close>

definition upper_letters :: string where
  "upper_letters = ''ABCDEFGHIJKLMNOPQRSTUVWXYZ'' @
     [CHR 0xC0, CHR 0xC1, CHR 0xC2, CHR 0xC3, CHR 0xC4, CHR 0xC5, CHR 0xC6, CHR 0xC7,
      CHR 0xC8, CHR 0xC9, CHR 0xCA, CHR 0xCB, CHR 0xCC, CHR 0xCD, CHR 0xCE, CHR 0xCF,
      CHR 0xD0, CHR 0xD1, CHR 0xD2, CHR 0xD3, CHR 0xD4, CHR 0xD5, CHR 0xD6,
      CHR 0xD8, CHR 0xD9, CHR 0xDA, CHR 0xDB, CHR 0xDC, CHR 0xDD, CHR 0xDE]"

definition lower_letters :: string where
  "lower_letters = ''abcdefghijklmnopqrstuvwxyz'' @
     [CHR 0xE0, CHR 0xE1, CHR 0xE2, CHR 0xE3, CHR 0xE4, CHR 0xE5, CHR 0xE6, CHR 0xE7,
      CHR 0xE8, CHR 0xE9, CHR 0xEA, CHR 0xEB, CHR 0xEC, CHR 0xED, CHR 0xEE, CHR 0xEF,
      CHR 0xF0, CHR 0xF1, CHR 0xF2, CHR 0xF3, CHR 0xF4, CHR 0xF5, CHR 0xF6,
      CHR 0xF8, CHR 0xF9, CHR 0xFA, CHR 0xFB, CHR 0xFC, CHR 0xFD, CHR 0xFE]"

definition lower_char :: "char \<Rightarrow> char" where
  "lower_char c = (case map_of (zip upper_letters lower_letters) c of Some l \<Rightarrow> l | None \<Rightarrow> c)"

definition lower :: "string \<Rightarrow> string" where
  "lower s = map lower_char s"

text \<open>Python's \<^verbatim>\<open>a in b\<close> on strings: \<^verbatim>\<open>a\<close> occurs in \<^verbatim>\<open>b\<close> as a contiguous run.\<close>

fun str_in :: "string \<Rightarrow> string \<Rightarrow> bool" where
  "str_in a [] = (a = [])"
| "str_in a (c # cs) = (prefix a (c # cs) \<or> str_in a cs)"

definition digit_char :: "nat \<Rightarrow> char" where
  "digit_char d = ''0123456789'' ! d"

fun str_nat :: "nat \<Rightarrow> string" where
  "str_nat n = (if n < 10 then [digit_char n] else str_nat (n div 10) @ [digit_char (n mod 10)])"

declare str_nat.simps [simp del]


fun py_str :: "param_value \<Rightarrow> string" where
  "py_str (VStr s) = s"
| "py_str (VInt i) = (if i < 0 then CHR ''-'' # str_nat (nat (- i)) else str_nat (nat i))"
| "py_str (VBool b) = (if b then ''True'' else ''False'')"
| "py_str VNone = ''None''"


section \<open>The injected current time\<close>

text \<open>
  \<^verbatim>\<open>datetime.weekday()\<close> of the standard library: the proleptic Gregorian ordinal of the
  date (1 for 0001-01-01, a Monday), plus 6, modulo 7, so that Monday is 0 and Sunday
  is 6. The time of day plays no part and is left out of the record.
\<close>

record datetime =
  dt_year :: int
  dt_month :: int
  dt_day :: int

definition is_leap :: "int \<Rightarrow> bool" where
  "is_leap y = (y mod 4 = 0 \<and> (y mod 100 \<noteq> 0 \<or> y mod 400 = 0))"

definition days_before_year :: "int \<Rightarrow> int" where
  "days_before_year y = (let p = y - 1 in p * 365 + p div 4 - p div 100 + p div 400)"

definition days_before_month :: "int \<Rightarrow> int \<Rightarrow> int" where
  "days_before_month y m =
     [0, 31, 59, 90, 120, 151, 181, 212, 243, 273, 304, 334] ! nat (m - 1)
       + (if m > 2 \<and> is_leap y then 1 else 0)"

definition toordinal :: "datetime \<Rightarrow> int" where
  "toordinal dt = days_before_year (dt_year dt) + days_before_month (dt_year dt) (dt_month dt)
     + dt_day dt"

definition weekday :: "datetime \<Rightarrow> int" where
  "weekday dt = (toordinal dt + 6) mod 7"

datatype day_of_week = Monday | Tuesday | Wednesday | Thursday | Friday | Saturday | Sunday

text \<open>The day a \<^verbatim>\<open>weekday()\<close> index stands for.\<close>

definition day_of_index :: "int \<Rightarrow> day_of_week" where
  "day_of_index i = [Monday, Tuesday, Wednesday, Thursday, Friday, Saturday, Sunday] ! nat i"

definition day_of_week :: "datetime \<Rightarrow> day_of_week" where
  "day_of_week dt = day_of_index (weekday dt)"

section \<open>DateFilterStage (conftest.py)\<close>

definition WEEKDAY_MAP :: "(string \<times> int) list" where
  "WEEKDAY_MAP =
     [(''sun'', 0), (''sunday'', 0),
      (''mon'', 1), (''monday'', 1),
      (''tue'', 2), (''tuesday'', 2),
      (''wed'', 3), (''wednesday'', 3),
      (''thu'', 4), (''thursday'', 4),
      (''fri'', 5), (''friday'', 5),
      (''sat'', 6), (''saturday'', 6)]"

definition WEEKEND_DAYS :: "int set" where
  "WEEKEND_DAYS = {5, 6}"

text \<open>
  \<^verbatim>\<open>Node.get_closest_marker(name)\<close>: the first marker of that name, the item's own
  markers before those of the enclosing nodes.
\<close>

definition get_closest_marker :: "Item \<Rightarrow> string \<Rightarrow> Mark option" where
  "get_closest_marker test n = find (\<lambda>m. mark_name m = n) (own_markers test @ parent_markers test)"

text \<open>
  The body both loops of \<^verbatim>\<open>_should_run_today\<close> run on a string token: lower-case it,
  expand \<^verbatim>\<open>weekend\<close>, look any other token up in the table, ignore an unknown one.
\<close>

definition add_day_token :: "string \<Rightarrow> int set \<Rightarrow> int set" where
  "add_day_token tok allowed_days =
     (let tok_lower = lower tok in
      if tok_lower = ''weekend'' then allowed_days \<union> WEEKEND_DAYS
      else (case map_of WEEKDAY_MAP tok_lower of
              Some d \<Rightarrow> insert d allowed_days
            | None \<Rightarrow> allowed_days))"

text \<open>The loop over a sequence of tokens; an element that is not a string is skipped.\<close>

fun add_day_tokens :: "mark_value list \<Rightarrow> int set \<Rightarrow> int set" where
  "add_day_tokens [] allowed_days = allowed_days"
| "add_day_tokens (MStr s # rest) allowed_days = add_day_tokens rest (add_day_token s allowed_days)"
| "add_day_tokens (_ # rest) allowed_days = add_day_tokens rest allowed_days"

text \<open>The loop over the keyword arguments: only a list or tuple under the key \<^verbatim>\<open>days\<close> counts.\<close>

fun add_kwargs :: "(string \<times> mark_value) list \<Rightarrow> int set \<Rightarrow> int set" where
  "add_kwargs [] allowed_days = allowed_days"
| "add_kwargs ((key, MSeq days) # rest) allowed_days =
     add_kwargs rest (if lower key = ''days'' then add_day_tokens days allowed_days else allowed_days)"
| "add_kwargs (_ # rest) allowed_days = add_kwargs rest allowed_days"

definition allowed_days_of :: "Mark \<Rightarrow> int set" where
  "allowed_days_of m = add_kwargs (mark_kwargs m) (add_day_tokens (mark_args m) {})"

definition should_run_today :: "Item \<Rightarrow> int \<Rightarrow> bool" where
  "should_run_today test current_day =
     (case get_closest_marker test ''run_days'' of
        None \<Rightarrow> True
      | Some run_days_mark \<Rightarrow>
          (let allowed_days = allowed_days_of run_days_mark in
           if allowed_days \<noteq> {} then current_day \<in> allowed_days else True))"

fun date_filter_loop :: "store \<Rightarrow> int \<Rightarrow> addr list \<Rightarrow> addr list \<Rightarrow> addr list" where
  "date_filter_loop h current_day [] filtered_tests = filtered_tests"
| "date_filter_loop h current_day (test # tests) filtered_tests =
     date_filter_loop h current_day tests
       (if should_run_today (h test) current_day then filtered_tests @ [test] else filtered_tests)"

text \<open>
  \<^verbatim>\<open>DateFilterStage(current_time).apply(tests)\<close>; \<^verbatim>\<open>now\<close> is what \<^verbatim>\<open>datetime.now()\<close>
  reads when no time was injected.
\<close>

definition current_day_of :: "datetime option \<Rightarrow> datetime \<Rightarrow> int" where
  "current_day_of current_time now = weekday (case current_time of Some t \<Rightarrow> t | None \<Rightarrow> now)"

definition DateFilterStage_apply :: "datetime option \<Rightarrow> datetime \<Rightarrow> store \<Rightarrow> addr list \<Rightarrow> addr list" where
  "DateFilterStage_apply current_time now h tests =
     date_filter_loop h (current_day_of current_time now) tests []"

section \<open>FixtureParameterGroups\<close>

text \<open>The dict \<^verbatim>\<open>groups\<close> keeps its insertion order: an association list with distinct keys.\<close>

record FixtureParameterGroups =
  groups :: "(string \<times> addr list) list"
  unmatched :: "addr list"

definition get_group :: "FixtureParameterGroups \<Rightarrow> string \<Rightarrow> addr list" where
  "get_group r group_name = (case map_of (groups r) group_name of Some tests \<Rightarrow> tests | None \<Rightarrow> [])"

definition get_all_groups :: "FixtureParameterGroups \<Rightarrow> (string \<times> addr list) list" where
  "get_all_groups r = groups r"

definition get_group_names :: "FixtureParameterGroups \<Rightarrow> string list" where
  "get_group_names r = map fst (groups r)"

text \<open>What a stage's \<^verbatim>\<open>apply\<close> may return: a list of tests or the grouping aggregate.\<close>

datatype stage_result = TestList "addr list" | GroupingResult FixtureParameterGroups


section \<open>FixtureParameterGroupingStage (conftest.py)\<close>

text \<open>
  \<^verbatim>\<open>group_mappings\<close> is a dict from group name to identifier strings: an association
  list in insertion order, with distinct keys.
\<close>

type_synonym group_mappings = "(string \<times> string list) list"

text \<open>
  The values \<^verbatim>\<open>_find_matching_groups\<close> collects in \<^verbatim>\<open>parameter_values\<close>: those of
  \<^verbatim>\<open>callspec.params\<close> (when there is a callspec), followed by those of \<^verbatim>\<open>funcargs\<close>
  (when it is a dict). Listing an object that cannot be iterated raises, and the
  exception is swallowed.
\<close>

definition callspec_values :: "Item \<Rightarrow> param_value list" where
  "callspec_values test =
     (case callspec test of
        None \<Rightarrow> []
      | Some (DictParams d) \<Rightarrow> map snd d
      | Some (IterParams vs) \<Rightarrow> vs
      | Some OtherParams \<Rightarrow> [])"

definition funcargs_values :: "Item \<Rightarrow> param_value list" where
  "funcargs_values test = (case funcargs test of Some d \<Rightarrow> map snd d | None \<Rightarrow> [])"

definition parameter_values :: "Item \<Rightarrow> param_value list" where
  "parameter_values test = callspec_values test @ funcargs_values test"

text \<open>\<^verbatim>\<open>any(identifier.lower() in str(param_value).lower() for identifier in identifiers)\<close>\<close>

definition any_identifier_in :: "string list \<Rightarrow> param_value \<Rightarrow> bool" where
  "any_identifier_in identifiers param_value =
     list_ex (\<lambda>identifier. str_in (lower identifier) (lower (py_str param_value))) identifiers"

text \<open>The inner loop, over the groups, for one value.\<close>

fun match_groups :: "group_mappings \<Rightarrow> param_value \<Rightarrow> string list \<Rightarrow> string list" where
  "match_groups [] param_value matching_groups = matching_groups"
| "match_groups ((group_name, identifiers) # rest) param_value matching_groups =
     match_groups rest param_value
       (if any_identifier_in identifiers param_value then matching_groups @ [group_name]
        else matching_groups)"

text \<open>The outer loop, over the values.\<close>

fun match_values :: "group_mappings \<Rightarrow> param_value list \<Rightarrow> string list \<Rightarrow> string list" where
  "match_values gm [] matching_groups = matching_groups"
| "match_values gm (param_value # rest) matching_groups =
     match_values gm rest (match_groups gm param_value matching_groups)"

definition find_matching_groups :: "group_mappings \<Rightarrow> Item \<Rightarrow> string list" where
  "find_matching_groups gm test = match_values gm (parameter_values test) []"

text \<open>
  \<^verbatim>\<open>pytest.mark.__getattr__(name)\<close> during a test session in which no marker is registered
  and strict markers are off: reading \<^verbatim>\<open>name[0]\<close> of an empty name raises IndexError, a
  name that starts with an underscore raises AttributeError, one of three misspellings
  of \<^verbatim>\<open>parametrize\<close> fails the run, and any other name gives a marker without arguments
  (with a warning).
\<close>

definition mark_getattr :: "string \<Rightarrow> error + Mark" where
  "mark_getattr n =
     (case n of
        [] \<Rightarrow> Inl IndexError
      | c # _ \<Rightarrow>
          if c = CHR ''_'' then Inl AttributeError
          else if n \<in> set [''parameterize'', ''parametrise'', ''parameterise''] then Inl Failed
          else Inr \<lparr>mark_name = n, mark_args = [], mark_kwargs = []\<rparr>)"

text \<open>The names on which it returns.\<close>

definition valid_marker_name :: "string \<Rightarrow> bool" where
  "valid_marker_name n =
     (n \<noteq> [] \<and> hd n \<noteq> CHR ''_''
      \<and> n \<notin> set [''parameterize'', ''parametrise'', ''parameterise''])"

definition add_marker :: "Mark \<Rightarrow> Item \<Rightarrow> Item" where
  "add_marker m test = test\<lparr>own_markers := own_markers test @ [m]\<rparr>"

text \<open>
  The loop over \<^verbatim>\<open>assigned_groups\<close> for one test: append the test to the group's list
  (\<^verbatim>\<open>groups[group_name]\<close> raises KeyError on a missing key), then add the marker to the
  test object.
\<close>

fun assign_groups ::
  "addr \<Rightarrow> string list \<Rightarrow> (string \<times> addr list) list \<Rightarrow> store
     \<Rightarrow> error + ((string \<times> addr list) list \<times> store)" where
  "assign_groups test [] grps h = Inr (grps, h)"
| "assign_groups test (group_name # rest) grps h =
     (case map_of grps group_name of
        None \<Rightarrow> Inl KeyError
      | Some members \<Rightarrow>
          (case mark_getattr group_name of
             Inl e \<Rightarrow> Inl e
           | Inr m \<Rightarrow>
               assign_groups test rest (AList.update group_name (members @ [test]) grps)
                 (h(test := add_marker m (h test)))))"

text \<open>The loop over the tests, on the local variables \<^verbatim>\<open>groups\<close> and \<^verbatim>\<open>unmatched\<close>.\<close>

fun grouping_loop ::
  "group_mappings \<Rightarrow> addr list \<Rightarrow> FixtureParameterGroups \<Rightarrow> store
     \<Rightarrow> error + (FixtureParameterGroups \<times> store)" where
  "grouping_loop gm [] r h = Inr (r, h)"
| "grouping_loop gm (test # tests) r h =
     (let assigned_groups = find_matching_groups gm (h test) in
      if assigned_groups \<noteq> [] then
        (case assign_groups test assigned_groups (groups r) h of
           Inl e \<Rightarrow> Inl e
         | Inr (grps, h') \<Rightarrow> grouping_loop gm tests (r\<lparr>groups := grps\<rparr>) h')
      else grouping_loop gm tests (r\<lparr>unmatched := unmatched r @ [test]\<rparr>) h)"

text \<open>
  The state of \<^verbatim>\<open>groups\<close> and \<^verbatim>\<open>unmatched\<close> when the loop of \<^verbatim>\<open>apply\<close> ends, with the
  store as the markers left it.
\<close>

definition build_groups ::
  "group_mappings \<Rightarrow> addr list \<Rightarrow> store \<Rightarrow> error + (FixtureParameterGroups \<times> store)" where
  "build_groups gm tests h =
     grouping_loop gm tests \<lparr>groups = map (\<lambda>group_name. (group_name, [])) (map fst gm), unmatched = []\<rparr> h"

text \<open>\<^verbatim>\<open>apply\<close> ends with \<^verbatim>\<open>return tests\<close>; the aggregate is not returned.\<close>

definition FixtureParameterGroupingStage_apply ::
  "group_mappings \<Rightarrow> addr list \<Rightarrow> store \<Rightarrow> error + (stage_result \<times> store)" where
  "FixtureParameterGroupingStage_apply gm tests h =
     (case build_groups gm tests h of
        Inl e \<Rightarrow> Inl e
      | Inr (r, h') \<Rightarrow> Inr (TestList tests, h'))"

section \<open>TestFilterPipeline\<close>

text \<open>
  The stages of a pipeline are objects with an \<^verbatim>\<open>apply\<close> method; \<^verbatim>\<open>stage_apply\<close> is
  that method, taken as a parameter of the loop both modules share.
\<close>

fun run_stages ::
  "('s \<Rightarrow> stage_result \<Rightarrow> store \<Rightarrow> error + (stage_result \<times> store)) \<Rightarrow> 's list
     \<Rightarrow> stage_result \<Rightarrow> store \<Rightarrow> error + (stage_result \<times> store)" where
  "run_stages stage_apply [] result h = Inr (result, h)"
| "run_stages stage_apply (stage # rest) result h =
     (case stage_apply stage result h of
        Inl e \<Rightarrow> Inl e
      | Inr (result', h') \<Rightarrow> run_stages stage_apply rest result' h')"

definition add_stage :: "'s list \<Rightarrow> 's \<Rightarrow> 's list" where
  "add_stage stages stage = stages @ [stage]"

definition clear :: "'s list \<Rightarrow> 's list" where
  "clear stages = []"

text \<open>
  \<^verbatim>\<open>TestFilterPipeline.apply\<close> of \<^verbatim>\<open>conftest.py\<close>: with no stage it calls
  \<^verbatim>\<open>self._build_stages_from_config()\<close>, a method the class does not define (its
  definition is commented out), so the attribute lookup raises AttributeError.
\<close>

definition TestFilterPipeline_apply ::
  "('s \<Rightarrow> stage_result \<Rightarrow> store \<Rightarrow> error + (stage_result \<times> store)) \<Rightarrow> 's list
     \<Rightarrow> addr list \<Rightarrow> store \<Rightarrow> error + (stage_result \<times> store)" where
  "TestFilterPipeline_apply stage_apply stages tests h =
     (if stages = [] then Inl AttributeError
      else run_stages stage_apply stages (TestList tests) h)"

text \<open>\<^verbatim>\<open>TestFilterPipeline.apply\<close> of \<^verbatim>\<open>Pipeline.py\<close>: the loop alone.\<close>

definition Pipeline_TestFilterPipeline_apply ::
  "('s \<Rightarrow> stage_result \<Rightarrow> store \<Rightarrow> error + (stage_result \<times> store)) \<Rightarrow> 's list
     \<Rightarrow> addr list \<Rightarrow> store \<Rightarrow> error + (stage_result \<times> store)" where
  "Pipeline_TestFilterPipeline_apply stage_apply stages tests h =
     run_stages stage_apply stages (TestList tests) h"

text \<open>
  The two stages of \<^verbatim>\<open>conftest.py\<close>. Both iterate over their argument, which raises
  TypeError on the aggregate (a dataclass instance is not iterable).
\<close>

datatype PipelineStep =
  DateFilterStage "datetime option"
  | FixtureParameterGroupingStage group_mappings

fun PipelineStep_apply ::
  "datetime \<Rightarrow> PipelineStep \<Rightarrow> stage_result \<Rightarrow> store \<Rightarrow> error + (stage_result \<times> store)" where
  "PipelineStep_apply now (DateFilterStage current_time) (TestList tests) h =
     Inr (TestList (DateFilterStage_apply current_time now h tests), h)"
| "PipelineStep_apply now (FixtureParameterGroupingStage gm) (TestList tests) h =
     FixtureParameterGroupingStage_apply gm tests h"
| "PipelineStep_apply now stage (GroupingResult r) h = Inl TypeError"


section \<open>FixtureParameterGroupingStage (Pipeline.py)\<close>

text \<open>
  The sibling module groups by the exact value of one named fixture. Its constructor
  builds the reverse table \<^verbatim>\<open>_value_to_group\<close>: a later group overwrites an earlier one
  on a shared value.
\<close>

definition value_to_group :: "group_mappings \<Rightarrow> (string \<rightharpoonup> string)" where
  "value_to_group gm =
     fold (\<lambda>(group_name, vals) m. fold (\<lambda>v m'. m'(v \<mapsto> group_name)) vals m) gm Map.empty"

text \<open>
  \<^verbatim>\<open>_get_fixture_parameter_value\<close>: \<^verbatim>\<open>fixture_name in callspec.params\<close> followed by
  \<^verbatim>\<open>callspec.params[fixture_name]\<close>. On a list or tuple the subscript raises TypeError,
  on an object that cannot be iterated the membership test does.
\<close>

definition get_fixture_parameter_value :: "string \<Rightarrow> Item \<Rightarrow> error + string option" where
  "get_fixture_parameter_value fixture_name test =
     (case callspec test of
        None \<Rightarrow> Inr None
      | Some (DictParams d) \<Rightarrow>
          (case map_of d fixture_name of
             None \<Rightarrow> Inr None
           | Some param_value \<Rightarrow>
               Inr (if param_value \<noteq> VNone then Some (py_str param_value) else None))
      | Some (IterParams vs) \<Rightarrow> if VStr fixture_name \<in> set vs then Inl TypeError else Inr None
      | Some OtherParams \<Rightarrow> Inl TypeError)"

fun Pipeline_grouping_loop ::
  "string \<Rightarrow> (string \<rightharpoonup> string) \<Rightarrow> addr list \<Rightarrow> FixtureParameterGroups \<Rightarrow> store
     \<Rightarrow> error + FixtureParameterGroups" where
  "Pipeline_grouping_loop fixture_name v2g [] r h = Inr r"
| "Pipeline_grouping_loop fixture_name v2g (test # tests) r h =
     (case get_fixture_parameter_value fixture_name (h test) of
        Inl e \<Rightarrow> Inl e
      | Inr parameter_value \<Rightarrow>
          (case (case parameter_value of
                   None \<Rightarrow> None
                 | Some s \<Rightarrow> if s \<noteq> [] then v2g s else None) of
             Some group_name \<Rightarrow>
               (case map_of (groups r) group_name of
                  None \<Rightarrow> Inl KeyError
                | Some members \<Rightarrow>
                    Pipeline_grouping_loop fixture_name v2g tests
                      (r\<lparr>groups := AList.update group_name (members @ [test]) (groups r)\<rparr>) h)
           | None \<Rightarrow>
               Pipeline_grouping_loop fixture_name v2g tests
                 (r\<lparr>unmatched := unmatched r @ [test]\<rparr>) h))"

definition Pipeline_FixtureParameterGroupingStage_apply ::
  "string \<Rightarrow> group_mappings \<Rightarrow> addr list \<Rightarrow> store \<Rightarrow> error + (stage_result \<times> store)" where
  "Pipeline_FixtureParameterGroupingStage_apply fixture_name gm tests h =
     (case Pipeline_grouping_loop fixture_name (value_to_group gm) tests
             \<lparr>groups = map (\<lambda>group_name. (group_name, [])) (map fst gm), unmatched = []\<rparr> h of
        Inl e \<Rightarrow> Inl e
      | Inr r \<Rightarrow> Inr (GroupingResult r, h))"

section \<open>The specification's words\<close>





text \<open>
  Today's index as the specification numbers the days, Sunday 0 to Saturday 6, and
  eligibility of a test on a date: no schedule annotation, an empty set of allowed days,
  or a set of allowed days that holds today's index.
\<close>

definition spec_today :: "datetime \<Rightarrow> int" where
  "spec_today dt = (weekday dt + 1) mod 7"

definition spec_eligible :: "Item \<Rightarrow> datetime \<Rightarrow> bool" where
  "spec_eligible test dt =
     (case get_closest_marker test ''run_days'' of
        None \<Rightarrow> True
      | Some m \<Rightarrow> if allowed_days_of m = {} then True else spec_today dt \<in> allowed_days_of m)"

text \<open>The list a dict of groups holds under a name, empty for a name that is not a key.\<close>

definition members_of :: "(string \<times> addr list) list \<Rightarrow> string \<Rightarrow> addr list" where
  "members_of grps g = (case map_of grps g of Some l \<Rightarrow> l | None \<Rightarrow> [])"

section \<open>Example inputs\<close>

definition plain_item :: Item where
  "plain_item = \<lparr>item_name = ''test_sleep'', own_markers = [], parent_markers = [],
     callspec = None, funcargs = Some []\<rparr>"

text \<open>A test decorated with \<^verbatim>\<open>@pytest.mark.run_days(tok)\<close>.\<close>

definition run_days_item :: "string \<Rightarrow> Item" where
  "run_days_item tok =
     plain_item\<lparr>own_markers := [\<lparr>mark_name = ''run_days'', mark_args = [MStr tok], mark_kwargs = []\<rparr>]\<rparr>"

text \<open>A parametrized invocation with the resolved parameters \<^verbatim>\<open>ps\<close>, before set-up.\<close>

definition param_item :: "(string \<times> param_value) list \<Rightarrow> Item" where
  "param_item ps = plain_item\<lparr>callspec := Some (DictParams ps)\<rparr>"

definition date :: "int \<Rightarrow> int \<Rightarrow> int \<Rightarrow> datetime" where
  "date y m d = \<lparr>dt_year = y, dt_month = m, dt_day = d\<rparr>"

definition fast_slow :: group_mappings where
  "fast_slow = [(''fast'', [''quick'']), (''slow'', [''slow''])]"

section \<open>The loops as list functions\<close>

lemma date_filter_loop_filter:
  "date_filter_loop h d tests acc = acc @ filter (\<lambda>t. should_run_today (h t) d) tests"
  by (induction tests arbitrary: acc) simp_all

lemma match_groups_eq:
  "match_groups gm v acc = acc @ map fst (filter (\<lambda>(g, ids). any_identifier_in ids v) gm)"
  by (induction gm arbitrary: acc) auto

lemma match_values_eq:
  "match_values gm vs acc =
     acc @ concat (map (\<lambda>v. map fst (filter (\<lambda>(g, ids). any_identifier_in ids v) gm)) vs)"
  by (induction vs arbitrary: acc) (simp_all add: match_groups_eq)

lemma set_find_matching_groups:
  "set (find_matching_groups gm t) =
     {g. \<exists>v\<in>set (parameter_values t). \<exists>ids. (g, ids) \<in> set gm \<and> any_identifier_in ids v}"
  unfolding find_matching_groups_def match_values_eq
  by (auto simp: image_iff; blast)

section \<open>Substring tests\<close>









section \<open>The date filter\<close>

lemma allowed_days_mon:
  "allowed_days_of \<lparr>mark_name = ''run_days'', mark_args = [MStr ''mon''], mark_kwargs = []\<rparr> = {1}"
  by (simp add: allowed_days_of_def add_day_token_def lower_def lower_char_def upper_letters_def lower_letters_def WEEKDAY_MAP_def)

lemma allowed_days_weekend:
  "allowed_days_of \<lparr>mark_name = ''run_days'', mark_args = [MStr ''weekend''], mark_kwargs = []\<rparr>
     = {5, 6}"
  by (simp add: allowed_days_of_def add_day_token_def lower_def lower_char_def upper_letters_def lower_letters_def WEEKEND_DAYS_def)

lemma weekday_range: "0 \<le> weekday dt \<and> weekday dt < 7"
  by (simp add: weekday_def)

lemma day_of_index_cases:
  assumes "0 \<le> i" and "i < 7"
  shows "(day_of_index i = Tuesday \<longleftrightarrow> i = 1)
     \<and> (day_of_index i = Saturday \<or> day_of_index i = Sunday \<longleftrightarrow> i = 5 \<or> i = 6)"
proof -
  from assms have "i = 0 \<or> i = 1 \<or> i = 2 \<or> i = 3 \<or> i = 4 \<or> i = 5 \<or> i = 6"
    by arith
  then show ?thesis
    by (auto simp: day_of_index_def)
qed

text \<open>
  Whatever time is injected, a test marked \<^verbatim>\<open>run_days("mon")\<close> is kept exactly when
  \<^verbatim>\<open>weekday()\<close> is 1, which is a Tuesday, and one marked \<^verbatim>\<open>run_days("weekend")\<close> exactly
  on a Saturday or a Sunday: the table numbers the days from Sunday, \<^verbatim>\<open>weekday()\<close> from
  Monday.
\<close>

lemma mon_token_runs_on_tuesday:
  "should_run_today (run_days_item ''mon'') (weekday dt) \<longleftrightarrow> day_of_week dt = Tuesday"
  using day_of_index_cases[OF weekday_range[of dt, THEN conjunct1]
      weekday_range[of dt, THEN conjunct2]]
  by (simp add: should_run_today_def get_closest_marker_def run_days_item_def plain_item_def
      allowed_days_mon day_of_week_def)

lemma weekend_token_runs_on_saturday_sunday:
  "should_run_today (run_days_item ''weekend'') (weekday dt)
     \<longleftrightarrow> day_of_week dt = Saturday \<or> day_of_week dt = Sunday"
  using day_of_index_cases[OF weekday_range[of dt, THEN conjunct1]
      weekday_range[of dt, THEN conjunct2]]
  by (simp add: should_run_today_def get_closest_marker_def run_days_item_def plain_item_def
      allowed_days_weekend day_of_week_def)

text \<open>
  C1. A test marked \<^verbatim>\<open>run_days("mon")\<close> should be kept exactly when the injected day is a
  Monday. On Monday 2024-01-01 the stage drops it, and on Tuesday 2024-01-02 it keeps it.
\<close>

theorem mon_token_dropped_on_monday:
  "day_of_week (date 2024 1 1) = Monday
   \<and> DateFilterStage_apply (Some (date 2024 1 1)) (date 2024 1 1) (\<lambda>_. run_days_item ''mon'') [0] = []
   \<and> day_of_week (date 2024 1 2) = Tuesday
   \<and> DateFilterStage_apply (Some (date 2024 1 2)) (date 2024 1 1) (\<lambda>_. run_days_item ''mon'') [0] = [0]"
  by code_simp

text \<open>
  C2. A test marked \<^verbatim>\<open>run_days("weekend")\<close> should be kept exactly on Friday and
  Saturday. On Friday 2024-01-05 the stage drops it, and on Sunday 2024-01-07 it keeps it.
\<close>

theorem weekend_token_dropped_on_friday:
  "day_of_week (date 2024 1 5) = Friday
   \<and> DateFilterStage_apply (Some (date 2024 1 5)) (date 2024 1 1) (\<lambda>_. run_days_item ''weekend'') [0] = []
   \<and> day_of_week (date 2024 1 7) = Sunday
   \<and> DateFilterStage_apply (Some (date 2024 1 7)) (date 2024 1 1) (\<lambda>_. run_days_item ''weekend'') [0] = [0]"
  by code_simp

text \<open>
  C8. A test without a \<^verbatim>\<open>run_days\<close> marker, or whose marker gives an empty set of allowed
  days, is eligible on every day: the stage keeps it wherever it occurs in the input.
\<close>

theorem unscheduled_test_always_kept:
  assumes "get_closest_marker (h t) ''run_days'' = None
     \<or> (\<exists>m. get_closest_marker (h t) ''run_days'' = Some m \<and> allowed_days_of m = {})"
  shows "should_run_today (h t) (current_day_of current_time now)
     \<and> DateFilterStage_apply current_time now h [t] = [t]
     \<and> (t \<in> set (DateFilterStage_apply current_time now h tests) \<longleftrightarrow> t \<in> set tests)"
proof -
  have "should_run_today (h t) (current_day_of current_time now)"
    using assms by (auto simp: should_run_today_def)
  then show ?thesis
    by (simp add: DateFilterStage_apply_def date_filter_loop_filter)
qed

theorem unscheduled_test_always_kept_witness:
  "get_closest_marker plain_item ''run_days'' = None
   \<and> DateFilterStage_apply (Some (date 2024 1 3)) (date 2024 1 1) (\<lambda>_. plain_item) [0] = [0]
   \<and> (\<exists>m. get_closest_marker (run_days_item ''funday'') ''run_days'' = Some m
          \<and> allowed_days_of m = {})
   \<and> DateFilterStage_apply (Some (date 2024 1 3)) (date 2024 1 1) (\<lambda>_. run_days_item ''funday'') [0]
       = [0]"
proof -
  have none: "get_closest_marker plain_item ''run_days'' = None"
    by (simp add: get_closest_marker_def plain_item_def)
  have empty: "\<exists>m. get_closest_marker (run_days_item ''funday'') ''run_days'' = Some m
      \<and> allowed_days_of m = {}"
    by (simp add: get_closest_marker_def run_days_item_def plain_item_def allowed_days_of_def
        add_day_token_def lower_def lower_char_def upper_letters_def lower_letters_def WEEKDAY_MAP_def)
  show ?thesis
    using none empty
      unscheduled_test_always_kept[of "\<lambda>_. plain_item" 0 "Some (date 2024 1 3)" "date 2024 1 1" "[]"]
      unscheduled_test_always_kept[of "\<lambda>_. run_days_item ''funday''" 0 "Some (date 2024 1 3)"
        "date 2024 1 1" "[]"]
    by simp
qed

text \<open>
  The output of the date filter is the input with the tests removed that
  \<^verbatim>\<open>_should_run_today\<close> turns down at the day index of \<^verbatim>\<open>weekday()\<close>: a sub-sequence of the
  input, in its order.
\<close>

lemma date_filter_apply_filter:
  "DateFilterStage_apply current_time now h tests =
     filter (\<lambda>t. should_run_today (h t) (current_day_of current_time now)) tests
   \<and> subseq (DateFilterStage_apply current_time now h tests) tests"
  by (simp add: DateFilterStage_apply_def date_filter_loop_filter)

text \<open>
  C9. The output should be the sub-sequence of the tests that are eligible today. On
  Monday 2024-01-01, of a test marked \<^verbatim>\<open>run_days("mon")\<close>, an unmarked test and a test marked
  \<^verbatim>\<open>run_days("weekend")\<close>, the first two are eligible, and the stage returns the second
  alone.
\<close>

theorem date_filter_drops_eligible_test:
  "day_of_week (date 2024 1 1) = Monday
   \<and> spec_today (date 2024 1 1) = 1
   \<and> filter (\<lambda>t. spec_eligible
         (((\<lambda>_. plain_item)(0 := run_days_item ''mon'', 2 := run_days_item ''weekend'')) t)
         (date 2024 1 1)) [0, 1, 2 :: addr] = [0, 1]
   \<and> DateFilterStage_apply (Some (date 2024 1 1)) (date 2024 1 1)
        ((\<lambda>_. plain_item)(0 := run_days_item ''mon'', 2 := run_days_item ''weekend'')) [0, 1, 2] = [1]"
  by code_simp

section \<open>The grouping result\<close>

text \<open>
  C10. \<^verbatim>\<open>get_group\<close> on a name that is not a key of \<^verbatim>\<open>groups\<close> returns the empty list, and
  on a key it returns the list stored under that key.
\<close>

theorem get_group_lookup:
  "(group_name \<notin> set (get_group_names r) \<longrightarrow> get_group r group_name = [])
   \<and> (distinct (get_group_names r) \<and> (group_name, tests) \<in> set (groups r)
        \<longrightarrow> get_group r group_name = tests)"
  by (auto simp: get_group_def get_group_names_def map_of_eq_None_iff[THEN iffD2]
      split: option.splits)

theorem get_group_lookup_witness:
  "''other'' \<notin> set (get_group_names \<lparr>groups = [(''fast'', [0, 1]), (''slow'', [1])], unmatched = [2]\<rparr>)
   \<and> get_group \<lparr>groups = [(''fast'', [0, 1]), (''slow'', [1])], unmatched = [2]\<rparr> ''other'' = []
   \<and> distinct (get_group_names \<lparr>groups = [(''fast'', [0, 1]), (''slow'', [1])], unmatched = [2]\<rparr>)
   \<and> (''fast'', [0, 1]) \<in> set (groups \<lparr>groups = [(''fast'', [0, 1]), (''slow'', [1])], unmatched = [2]\<rparr>)
   \<and> get_group \<lparr>groups = [(''fast'', [0, 1]), (''slow'', [1])], unmatched = [2]\<rparr> ''fast'' = [0, 1]"
proof -
  let ?r = "\<lparr>groups = [(''fast'', [0::nat, 1]), (''slow'', [1])], unmatched = [2]\<rparr>"
  have absent: "''other'' \<notin> set (get_group_names ?r)"
    by (simp add: get_group_names_def)
  have dist: "distinct (get_group_names ?r)"
    by (simp add: get_group_names_def)
  have present: "(''fast'', [0, 1]) \<in> set (groups ?r)"
    by simp
  note a = get_group_lookup[of "''other''" ?r "[]", THEN conjunct1, rule_format, OF absent]
  note b = get_group_lookup[of "''fast''" ?r "[0, 1]", THEN conjunct2, rule_format,
      OF conjI[OF dist present]]
  show ?thesis
    by (intro conjI absent a dist present b)
qed

section \<open>The grouping stage\<close>

text \<open>
  Adding a marker leaves the values a test is matched on as they are, so the groups
  found for a test do not depend on the tests handled before it.
\<close>

lemma parameter_values_add_marker: "parameter_values (add_marker m t) = parameter_values t"
  by (simp add: parameter_values_def callspec_values_def funcargs_values_def add_marker_def)

lemma find_matching_groups_cong:
  "parameter_values t' = parameter_values t \<Longrightarrow> find_matching_groups gm t' = find_matching_groups gm t"
  by (simp add: find_matching_groups_def)

lemma members_of_update:
  "members_of (AList.update k v grps) g = (if g = k then v else members_of grps g)"
  by (simp add: members_of_def update_conv')

lemma assign_groups_result:
  assumes "assign_groups t gs grps h = Inr (grps', h')"
  shows "(\<forall>a. parameter_values (h' a) = parameter_values (h a))
     \<and> (\<forall>g. set (members_of grps' g) = set (members_of grps g) \<union> (if g \<in> set gs then {t} else {}))"
  using assms
proof (induction gs arbitrary: grps h)
  case Nil
  then show ?case by simp
next
  case (Cons g0 gs)
  from Cons.prems obtain members m where
    lk: "map_of grps g0 = Some members" and mk: "mark_getattr g0 = Inr m" and
    rest: "assign_groups t gs (AList.update g0 (members @ [t]) grps) (h(t := add_marker m (h t)))
      = Inr (grps', h')"
    by (auto split: option.splits sum.splits)
  note ih = Cons.IH[OF rest]
  have m0: "members_of grps g0 = members"
    using lk by (simp add: members_of_def)
  have pv: "parameter_values (h' a) = parameter_values (h a)" for a
    using ih[THEN conjunct1, rule_format, of a] by (simp add: parameter_values_add_marker)
  have mem: "set (members_of grps' g) = set (members_of grps g) \<union> (if g \<in> set (g0 # gs) then {t} else {})" for g
    using ih[THEN conjunct2, rule_format, of g] m0 by (auto simp: members_of_update split: if_splits)
  from pv mem show ?case by blast
qed

lemma Collect_set_Cons:
  "{a \<in> set (x # xs). P a} = (if P x then {x} else {}) \<union> {a \<in> set xs. P a}"
  by auto

lemma grouping_loop_result:
  assumes "grouping_loop gm tests r h = Inr (r', h')"
  shows "(\<forall>a. parameter_values (h' a) = parameter_values (h a))
     \<and> set (unmatched r') = set (unmatched r) \<union> {a \<in> set tests. find_matching_groups gm (h a) = []}
     \<and> (\<forall>g. set (members_of (groups r') g) =
            set (members_of (groups r) g) \<union> {a \<in> set tests. g \<in> set (find_matching_groups gm (h a))})"
  using assms
proof (induction tests arbitrary: r h)
  case Nil
  then show ?case by simp
next
  case (Cons t tests)
  let ?U = "\<lambda>ts. {a \<in> set ts. find_matching_groups gm (h a) = []}"
  let ?G = "\<lambda>ts g. {a \<in> set ts. g \<in> set (find_matching_groups gm (h a))}"
  show ?case
  proof (cases "find_matching_groups gm (h t) = []")
    case True
    with Cons.prems have rest:
      "grouping_loop gm tests (r\<lparr>unmatched := unmatched r @ [t]\<rparr>) h = Inr (r', h')"
      by simp
    note ih = Cons.IH[OF rest]
    have cu: "?U (t # tests) = {t} \<union> ?U tests"
      unfolding Collect_set_Cons using True by simp
    have cg: "?G (t # tests) g = ?G tests g" for g
      unfolding Collect_set_Cons using True by simp
    have u: "set (unmatched r') = set (unmatched r) \<union> ?U (t # tests)"
      unfolding cu using ih[THEN conjunct2, THEN conjunct1] by simp
    have g: "set (members_of (groups r') g) = set (members_of (groups r) g) \<union> ?G (t # tests) g" for g
      unfolding cg using ih[THEN conjunct2, THEN conjunct2, rule_format, of g] by simp
    from ih[THEN conjunct1] u g show ?thesis by blast
  next
    case False
    with Cons.prems have step:
      "(case assign_groups t (find_matching_groups gm (h t)) (groups r) h of
          Inl e \<Rightarrow> Inl e
        | Inr (grps, h1) \<Rightarrow> grouping_loop gm tests (r\<lparr>groups := grps\<rparr>) h1) = Inr (r', h')"
      by (simp add: Let_def)
    then obtain grps h1 where
      asg: "assign_groups t (find_matching_groups gm (h t)) (groups r) h = Inr (grps, h1)" and
      rest: "grouping_loop gm tests (r\<lparr>groups := grps\<rparr>) h1 = Inr (r', h')"
      by (cases "assign_groups t (find_matching_groups gm (h t)) (groups r) h") auto
    note a = assign_groups_result[OF asg]
    note ih = Cons.IH[OF rest]
    have pv1: "parameter_values (h1 a) = parameter_values (h a)" for a
      using a[THEN conjunct1] by simp
    have fm1: "find_matching_groups gm (h1 a) = find_matching_groups gm (h a)" for a
      by (rule find_matching_groups_cong[OF pv1])
    have pv: "parameter_values (h' a) = parameter_values (h a)" for a
      using ih[THEN conjunct1, rule_format, of a] pv1[of a] by simp
    have cu: "?U (t # tests) = ?U tests"
      unfolding Collect_set_Cons using False by simp
    have cg: "?G (t # tests) g = (if g \<in> set (find_matching_groups gm (h t)) then {t} else {}) \<union> ?G tests g"
      for g
      unfolding Collect_set_Cons by simp
    have u: "set (unmatched r') = set (unmatched r) \<union> ?U (t # tests)"
      unfolding cu using ih[THEN conjunct2, THEN conjunct1] by (simp add: fm1)
    have g: "set (members_of (groups r') g) = set (members_of (groups r) g) \<union> ?G (t # tests) g" for g
      unfolding cg
      using ih[THEN conjunct2, THEN conjunct2, rule_format, of g] a[THEN conjunct2, rule_format, of g]
      by (simp add: fm1 Un_assoc)
    from pv u g show ?thesis by blast
  qed
qed

lemma members_of_initial: "members_of (map (\<lambda>group_name. (group_name, [])) names) g = []"
  by (induction names) (simp_all add: members_of_def)

lemma get_group_members_of: "get_group r g = members_of (groups r) g"
  by (simp add: get_group_def members_of_def)

text \<open>
  What the loop of \<^verbatim>\<open>apply\<close> leaves in \<^verbatim>\<open>groups\<close> and \<^verbatim>\<open>unmatched\<close>: a test is in
  \<^verbatim>\<open>unmatched\<close> exactly when no group was found for it, in a group's list exactly when
  that group was found for it, and so in \<^verbatim>\<open>unmatched\<close> or in some group's list but not
  both.
\<close>

lemma built_groups_membership:
  assumes "build_groups gm tests h = Inr (r, h')"
  shows "(a \<in> set (unmatched r) \<longleftrightarrow> a \<in> set tests \<and> find_matching_groups gm (h a) = [])
     \<and> (a \<in> set (get_group r g) \<longleftrightarrow> a \<in> set tests \<and> g \<in> set (find_matching_groups gm (h a)))"
proof -
  note res = grouping_loop_result[OF assms[unfolded build_groups_def]]
  have u: "set (unmatched r) = {a \<in> set tests. find_matching_groups gm (h a) = []}"
    using res[THEN conjunct2, THEN conjunct1] by simp
  have g: "set (members_of (groups r) g) = {a \<in> set tests. g \<in> set (find_matching_groups gm (h a))}"
    using res[THEN conjunct2, THEN conjunct2, rule_format, of g]
    unfolding FixtureParameterGroups.simps members_of_initial by simp
  show ?thesis
    unfolding get_group_members_of u g by simp
qed

lemma built_groups_exclusive:
  assumes "build_groups gm tests h = Inr (r, h')" and "a \<in> set tests"
  shows "a \<in> set (unmatched r) \<longleftrightarrow> \<not> (\<exists>g. a \<in> set (get_group r g))"
proof -
  have "find_matching_groups gm (h a) = [] \<longleftrightarrow> \<not> (\<exists>g. g \<in> set (find_matching_groups gm (h a)))"
    by (cases "find_matching_groups gm (h a)") auto
  then show ?thesis
    using built_groups_membership[OF assms(1), of a] assms(2) by simp
qed

text \<open>
  The loop returns whenever every group name is one \<^verbatim>\<open>pytest.mark\<close> accepts.
\<close>

lemma mark_getattr_valid:
  assumes "valid_marker_name g"
  shows "mark_getattr g = Inr \<lparr>mark_name = g, mark_args = [], mark_kwargs = []\<rparr>"
  using assms by (cases g) (simp_all add: mark_getattr_def valid_marker_name_def)

lemma assign_groups_succeeds:
  assumes "\<forall>g\<in>set gs. g \<in> dom (map_of grps) \<and> valid_marker_name g"
  shows "\<exists>grps' h'. assign_groups t gs grps h = Inr (grps', h')
     \<and> dom (map_of grps') = dom (map_of grps)"
  using assms
proof (induction gs arbitrary: grps h)
  case Nil
  then show ?case by simp
next
  case (Cons g0 gs)
  from Cons.prems obtain members where lk: "map_of grps g0 = Some members"
    by auto
  from Cons.prems have mk: "mark_getattr g0 = Inr \<lparr>mark_name = g0, mark_args = [], mark_kwargs = []\<rparr>"
    by (simp add: mark_getattr_valid)
  let ?grps1 = "AList.update g0 (members @ [t]) grps"
  let ?h1 = "h(t := add_marker \<lparr>mark_name = g0, mark_args = [], mark_kwargs = []\<rparr> (h t))"
  have d1: "dom (map_of ?grps1) = dom (map_of grps)"
    using lk by (auto simp: update_conv')
  have "\<forall>g\<in>set gs. g \<in> dom (map_of ?grps1) \<and> valid_marker_name g"
    unfolding d1 using Cons.prems by simp
  from Cons.IH[OF this, of ?h1] obtain grps' h' where
    r: "assign_groups t gs ?grps1 ?h1 = Inr (grps', h')" and d: "dom (map_of grps') = dom (map_of ?grps1)"
    by blast
  have "assign_groups t (g0 # gs) grps h = Inr (grps', h')"
    using lk mk r by simp
  with d d1 show ?case by simp
qed

lemma find_matching_groups_keys: "set (find_matching_groups gm t) \<subseteq> fst ` set gm"
  unfolding set_find_matching_groups by force

lemma grouping_loop_succeeds:
  assumes "fst ` set gm \<subseteq> dom (map_of (groups r))"
    and "\<forall>g\<in>fst ` set gm. valid_marker_name g"
  shows "\<exists>r' h'. grouping_loop gm tests r h = Inr (r', h')"
  using assms(1)
proof (induction tests arbitrary: r h)
  case Nil
  then show ?case by simp
next
  case (Cons t tests)
  show ?case
  proof (cases "find_matching_groups gm (h t) = []")
    case True
    have "fst ` set gm \<subseteq> dom (map_of (groups (r\<lparr>unmatched := unmatched r @ [t]\<rparr>)))"
      using Cons.prems by simp
    from Cons.IH[OF this, of h] True show ?thesis by simp
  next
    case False
    have "\<forall>g\<in>set (find_matching_groups gm (h t)).
        g \<in> dom (map_of (groups r)) \<and> valid_marker_name g"
      using find_matching_groups_keys[of gm "h t"] Cons.prems assms(2) by blast
    from assign_groups_succeeds[OF this, of t h] obtain grps h1 where
      asg: "assign_groups t (find_matching_groups gm (h t)) (groups r) h = Inr (grps, h1)" and
      d: "dom (map_of grps) = dom (map_of (groups r))"
      by blast
    have "fst ` set gm \<subseteq> dom (map_of (groups (r\<lparr>groups := grps\<rparr>)))"
      using Cons.prems d by simp
    from Cons.IH[OF this, of h1] obtain r' h' where
      "grouping_loop gm tests (r\<lparr>groups := grps\<rparr>) h1 = Inr (r', h')"
      by blast
    with False asg show ?thesis by (simp add: Let_def)
  qed
qed

lemma dom_initial_groups:
  "dom (map_of (map (\<lambda>group_name. (group_name, v)) names)) = set names"
  by (simp add: dom_map_of_conv_image_fst image_image)

lemma build_groups_succeeds:
  assumes "\<forall>g\<in>fst ` set gm. valid_marker_name g"
  shows "\<exists>r h'. build_groups gm tests h = Inr (r, h')"
proof -
  have "fst ` set gm \<subseteq> dom (map_of (map (\<lambda>group_name. (group_name, [])) (map fst gm)))"
    unfolding dom_initial_groups by simp
  then have "fst ` set gm \<subseteq>
      dom (map_of (groups \<lparr>groups = map (\<lambda>group_name. (group_name, [])) (map fst gm), unmatched = []\<rparr>))"
    by (simp only: FixtureParameterGroups.select_convs)
  from grouping_loop_succeeds[OF this assms] show ?thesis
    unfolding build_groups_def .
qed







text \<open>
  The aggregate is built and then dropped: whenever \<^verbatim>\<open>apply\<close> of \<^verbatim>\<open>conftest.py\<close> returns,
  it returns the list it was given. \<^verbatim>\<open>apply\<close> of \<^verbatim>\<open>Pipeline.py\<close> returns the aggregate.
\<close>

lemma conftest_apply_returns_input:
  "FixtureParameterGroupingStage_apply gm tests h = Inr (res, h') \<Longrightarrow> res = TestList tests"
  by (auto simp: FixtureParameterGroupingStage_apply_def split: sum.splits)

lemma Pipeline_apply_returns_aggregate:
  "Pipeline_FixtureParameterGroupingStage_apply fixture_name gm tests h = Inr (res, h')
     \<Longrightarrow> \<exists>r. res = GroupingResult r"
  by (auto simp: Pipeline_FixtureParameterGroupingStage_apply_def split: sum.splits)

lemma Pipeline_apply_example:
  "map_sum id fst (Pipeline_FixtureParameterGroupingStage_apply ''sleep_time'' fast_slow [0, 1]
       ((\<lambda>_. plain_item)(0 := param_item [(''sleep_time'', VStr ''quick'')])))
   = Inr (GroupingResult \<lparr>groups = [(''fast'', [0]), (''slow'', [])], unmatched = [1]\<rparr>)"
  by code_simp

text \<open>
  C3. \<^verbatim>\<open>apply\<close> should return the aggregate of the group lists and the unmatched list,
  not the test sequence. On one test with the parameter value \<^verbatim>\<open>quick_mode\<close> it returns
  the input list.
\<close>

theorem grouping_apply_returns_test_list:
  "map_sum id fst (FixtureParameterGroupingStage_apply fast_slow [0]
       (\<lambda>_. param_item [(''sleep_time'', VStr ''quick_mode'')])) = Inr (TestList [0])"
  by code_simp

text \<open>
  C4. No test should occur more than once in the list of one group. A test with two
  parameter values that both contain \<^verbatim>\<open>quick\<close> is put in \<^verbatim>\<open>fast\<close> twice.
\<close>

theorem test_twice_in_one_group:
  "map_sum id fst (build_groups [(''fast'', [''quick''])] [0]
       (\<lambda>_. param_item [(''mode'', VStr ''quick_a''), (''speed'', VStr ''quick_b'')]))
   = Inr \<lparr>groups = [(''fast'', [0, 0])], unmatched = []\<rparr>"
  by code_simp

text \<open>
  C7. The fixture values should be consulted only when there are no parametrization
  values. A test with the parameter value \<^verbatim>\<open>other\<close> and, once set up, the fixture value
  \<^verbatim>\<open>quick\<close> has both among its candidate values and is matched to \<^verbatim>\<open>fast\<close> through the
  fixture value; on its parametrization values alone it matches no group.
\<close>

theorem funcargs_consulted_besides_params:
  "parameter_values
       (param_item [(''mode'', VStr ''other'')]
          \<lparr>funcargs := Some [(''mode'', VStr ''other''), (''speed'', VStr ''quick'')]\<rparr>)
     = [VStr ''other'', VStr ''other'', VStr ''quick'']
   \<and> find_matching_groups fast_slow
        (param_item [(''mode'', VStr ''other'')]
          \<lparr>funcargs := Some [(''mode'', VStr ''other''), (''speed'', VStr ''quick'')]\<rparr>)
     = [''fast'']
   \<and> find_matching_groups fast_slow (param_item [(''mode'', VStr ''other'')]) = []"
  by code_simp

section \<open>The pipeline\<close>

text \<open>The pipeline of \<^verbatim>\<open>Pipeline.py\<close> without stages returns its input.\<close>

lemma Pipeline_empty_pipeline_identity:
  "Pipeline_TestFilterPipeline_apply stage_apply [] tests h = Inr (TestList tests, h)
   \<and> Pipeline_TestFilterPipeline_apply stage_apply (clear stages) tests h = Inr (TestList tests, h)"
  by (simp add: Pipeline_TestFilterPipeline_apply_def clear_def)

text \<open>
  A pipeline of the date filter followed by the grouping stage applies the second to the
  output of the first.
\<close>

lemma date_filter_then_grouping:
  "TestFilterPipeline_apply (PipelineStep_apply now)
       (add_stage (add_stage [] (DateFilterStage current_time)) (FixtureParameterGroupingStage gm))
       tests h
     = FixtureParameterGroupingStage_apply gm (DateFilterStage_apply current_time now h tests) h"
  by (simp add: TestFilterPipeline_apply_def add_stage_def split: sum.splits)

text \<open>
  C6. A pipeline without stages, also one that was just cleared, should return the input
  list unchanged. The pipeline of \<^verbatim>\<open>conftest.py\<close> raises AttributeError instead, on every
  input.
\<close>

theorem empty_pipeline_apply_raises:
  "TestFilterPipeline_apply stage_apply [] tests h = Inl AttributeError
   \<and> TestFilterPipeline_apply stage_apply (clear stages) tests h = Inl AttributeError"
  by (simp add: TestFilterPipeline_apply_def clear_def)

end
